theory Spec2Isabelle
  imports Complex_Main
begin

section \<open>The generate command of OpenShift Origin\<close>

text \<open>
  A shallow embedding of \<^verbatim>\<open>pkg/cmd/experimental/generate/generate.go\<close>: the construction
  of the image resolver chain (\<^verbatim>\<open>newImageResolver\<close>, and the part of the command's
  \<^verbatim>\<open>Run\<close> closure that configures the two clients), the generation of the source
  reference and of the build strategy reference, and \<^verbatim>\<open>generateApp\<close>, which threads them
  into the pipeline, the object list, the encoder and the output writer.

  Go's \<^verbatim>\<open>error\<close> is an interface value; the model keeps an error as an opaque message.
  A pointer that may be \<^verbatim>\<open>nil\<close> is an \<open>option\<close>. A function returning
  \<^verbatim>\<open>(*T, error)\<close> is a sum: \<open>Inl\<close> the error, \<open>Inr\<close> the value (the generators
  of the repository return a non-nil pointer whenever they return no error).
\<close>

subsection \<open>Data\<close>

datatype error = Err string

text \<open>
  The clients are handles; the model names them by their endpoint.

  The OpenShift client is a pointer of type \<^verbatim>\<open>*client.Client\<close>: a pointer to a client,
  or the nil pointer \<open>NilClient\<close>. The declaration of \<^verbatim>\<open>f.Clients\<close> is not among the
  sources; its first result is taken to have this concrete pointer type, the type under
  which the sources hand the OpenShift client around
  (\<^verbatim>\<open>DescriberFor(kind string, c *client.Client, ...)\<close> in
  \<^verbatim>\<open>pkg/cmd/cli/describe/describer.go\<close>). A value of the interface type
  \<^verbatim>\<open>osclient.Interface\<close> is an \<open>os_client option\<close>: \<open>None\<close> is the nil interface, and
  \<open>Some p\<close> is an interface that holds the pointer \<open>p\<close>. An interface that holds the
  nil pointer, \<open>Some NilClient\<close>, is not the nil interface: in Go it compares unequal
  to \<^verbatim>\<open>nil\<close>.

  The docker client is a \<^verbatim>\<open>*docker.Client\<close> both in \<^verbatim>\<open>Run\<close> and as the parameter of
  \<^verbatim>\<open>newImageResolver\<close>: a \<open>docker_client option\<close>, \<open>None\<close> the nil pointer.
\<close>

datatype docker_client = DockerClient string
datatype os_client = OsClient string | NilClient
datatype registry_client = NewClient

text \<open>
  The three resolver implementations of package \<^verbatim>\<open>genapp\<close> that
  \<^verbatim>\<open>newImageResolver\<close> instantiates, with the fields it sets:
  \<^verbatim>\<open>DockerClientResolver{Client}\<close>, \<^verbatim>\<open>ImageStreamResolver{Client, Images, Namespaces}\<close>
  and \<^verbatim>\<open>DockerRegistryResolver{Client}\<close>.
\<close>

datatype resolver =
    DockerClientResolver docker_client
  | ImageStreamResolver os_client os_client "string list"
  | DockerRegistryResolver registry_client

text \<open>\<^verbatim>\<open>genapp.WeightedResolver{resolver, weight}\<close>; the weight is a \<^verbatim>\<open>float32\<close> of which
  the source only ever writes the constant \<^verbatim>\<open>0.0\<close>.\<close>

record WeightedResolver =
  Resolver :: resolver
  Weight :: real

text \<open>\<^verbatim>\<open>genapp.PerfectMatchWeightedResolver\<close> is a slice of weighted resolvers.\<close>

type_synonym PerfectMatchWeightedResolver = "WeightedResolver list"

subsection \<open>newImageResolver\<close>

text \<open>
  \<^verbatim>\<open>
  func newImageResolver(namespace string, osClient osclient.Interface, dockerClient *docker.Client) genapp.Resolver {
      resolver := genapp.PerfectMatchWeightedResolver{}
      if dockerClient != nil {
          localDockerResolver := &genapp.DockerClientResolver{Client: dockerClient}
          resolver = append(resolver, genapp.WeightedResolver{localDockerResolver, 0.0})
      }
      if osClient != nil {
          namespaces := []string{}
          if len(namespace) > 0 {
              namespaces = append(namespaces, namespace)
          }
          namespaces = append(namespaces, "default")
          imageStreamResolver := &genapp.ImageStreamResolver{
              Client: osClient, Images: osClient, Namespaces: namespaces}
          resolver = append(resolver, genapp.WeightedResolver{imageStreamResolver, 0.0})
      }
      dockerRegistryResolver := &genapp.DockerRegistryResolver{dockerregistry.NewClient()}
      resolver = append(resolver, genapp.WeightedResolver{dockerRegistryResolver, 0.0})
      return resolver
  }
  \<close>
\<close>

definition newImageResolver ::
  "string \<Rightarrow> os_client option \<Rightarrow> docker_client option \<Rightarrow> PerfectMatchWeightedResolver" where
  "newImageResolver namespace osClient dockerClient =
     (let resolver0 = [];
          resolver1 =
            (case dockerClient of
               None \<Rightarrow> resolver0
             | Some dc \<Rightarrow>
                 resolver0 @ [\<lparr>Resolver = DockerClientResolver dc, Weight = 0.0\<rparr>]);
          resolver2 =
            (case osClient of
               None \<Rightarrow> resolver1
             | Some oc \<Rightarrow>
                 (let namespaces0 = [];
                      namespaces1 =
                        (if length namespace > 0 then namespaces0 @ [namespace]
                         else namespaces0);
                      namespaces2 = namespaces1 @ [''default'']
                  in resolver1 @
                       [\<lparr>Resolver = ImageStreamResolver oc oc namespaces2, Weight = 0.0\<rparr>]));
          resolver3 =
            resolver2 @ [\<lparr>Resolver = DockerRegistryResolver NewClient, Weight = 0.0\<rparr>]
      in resolver3)"

text \<open>
  The part of the \<^verbatim>\<open>Run\<close> closure of \<^verbatim>\<open>NewCmdGenerate\<close> that configures the clients and
  the namespace and builds the chain (lines 88 to 95 and 116 to 120). Each argument is
  what the corresponding factory call returned: the client (possibly \<^verbatim>\<open>nil\<close>) and the
  error (possibly \<^verbatim>\<open>nil\<close>). The statements between them (lines 96 to 115) read the
  arguments and the environment flag and touch neither client nor the namespace.

  The local \<^verbatim>\<open>osClient\<close> has the static type of the first result of \<^verbatim>\<open>f.Clients\<close>,
  the pointer type \<^verbatim>\<open>*client.Client\<close> (see above), so \<^verbatim>\<open>osClient = nil\<close> makes it the nil
  pointer. \<^verbatim>\<open>newImageResolver\<close> takes an \<^verbatim>\<open>osclient.Interface\<close> (line 140): the call on
  line 120 converts the pointer to an interface that holds it, which is never the nil
  interface, also when the pointer is nil. \<^verbatim>\<open>dockerClient\<close> is passed as the pointer it
  is.
  \<^verbatim>\<open>
  osClient, _, err := f.Clients(c)
  if err != nil {
      osClient = nil
  }
  dockerClient, _, err := dockerHelper.GetClient()
  if err != nil {
      osClient = nil
  }
  ...
  namespace, err := f.DefaultNamespace(c)
  if err != nil {
      namespace = ""
  }
  imageResolver := newImageResolver(namespace, osClient, dockerClient)
  \<close>
  The second guard assigns \<^verbatim>\<open>osClient\<close>, as the source does.
\<close>

definition Run_imageResolver ::
  "os_client \<times> error option \<Rightarrow> docker_client option \<times> error option \<Rightarrow>
   string \<times> error option \<Rightarrow> PerfectMatchWeightedResolver" where
  "Run_imageResolver Clients GetClient DefaultNamespace =
     (let osClient0 = fst Clients;
          osClient1 = (if snd Clients \<noteq> None then NilClient else osClient0);
          dockerClient = fst GetClient;
          osClient2 = (if snd GetClient \<noteq> None then NilClient else osClient1);
          namespace0 = fst DefaultNamespace;
          namespace1 = (if snd DefaultNamespace \<noteq> None then [] else namespace0)
      in newImageResolver namespace1 (Some osClient2) dockerClient)"

text \<open>The \<^verbatim>\<open>Namespaces\<close> field of a resolver that has one (the image-stream resolver).\<close>

primrec Namespaces :: "resolver \<Rightarrow> string list list" where
  "Namespaces (DockerClientResolver c) = []"
| "Namespaces (ImageStreamResolver c i ns) = [ns]"
| "Namespaces (DockerRegistryResolver c) = []"

subsection \<open>References\<close>

text \<open>
  The types \<^verbatim>\<open>SourceRef\<close>, \<^verbatim>\<open>ImageRef\<close> and \<^verbatim>\<open>BuildStrategyRef\<close> of package
  \<^verbatim>\<open>pkg/generate/app\<close> are not among the sources. Each is modelled with the fields of
  the specification's data model (section 3), under the names the source uses where it
  touches them: \<^verbatim>\<open>result.Ref\<close>, \<^verbatim>\<open>result.Name\<close>, \<^verbatim>\<open>strategyRef.Base\<close> and
  \<^verbatim>\<open>strategyRef.Base.Info.Config.ExposedPorts\<close>.
\<close>

text \<open>Modelled from the spec: \<^verbatim>\<open>SourceRef\<close> is "{name, origin (URL or directory path),
  ref (branch/tag, optional), contextDir (subpath within source, optional)}".\<close>

record SourceRef =
  Name :: string
  Origin :: string
  Ref :: string
  ContextDir :: string

text \<open>Modelled from the spec: the "declared exposed ports" of an image. The source
  assigns a \<^verbatim>\<open>map[string]struct{}\<close> to \<^verbatim>\<open>ExposedPorts\<close>: a set of port names.\<close>

record DockerConfig =
  ExposedPorts :: "string set"

text \<open>Modelled from the spec: the metadata of an inspected image, which the source
  reaches as \<^verbatim>\<open>Info\<close>; its \<^verbatim>\<open>Config\<close> is taken to be embedded by value.\<close>

record DockerImage =
  Config :: DockerConfig

text \<open>Modelled from the spec: \<^verbatim>\<open>ImageRef\<close> is "{name, namespace (optional),
  registry/pull-location, tag, declared exposed ports}". The name is the field
  \<open>Repository\<close> here. \<^verbatim>\<open>Info\<close> is a pointer to the metadata that carries the ports; it
  is \<^verbatim>\<open>nil\<close> for an image that has not been inspected.\<close>

record ImageRef =
  Namespace :: string
  Repository :: string
  Tag :: string
  Registry :: string
  Info :: "DockerImage option"

text \<open>Modelled from the spec: the "strategy kind (container-native | builder-image |
  custom-tooling)".\<close>

datatype strategy_kind = ContainerNative | BuilderImage | CustomTooling

text \<open>Modelled from the spec: \<^verbatim>\<open>BuildStrategyRef\<close> is "{strategy kind, base ImageRef,
  source context path, strategy-specific options}". \<^verbatim>\<open>Base\<close> is a pointer: the source
  hands it to \<^verbatim>\<open>NewBuildPipeline\<close> as its \<^verbatim>\<open>*ImageRef\<close> argument. The options play no
  part in \<^verbatim>\<open>generate.go\<close> and are left out.\<close>

record BuildStrategyRef =
  Kind :: strategy_kind
  Base :: "ImageRef option"
  DockerContext :: string

text \<open>The \<^verbatim>\<open>params\<close> struct of the command.\<close>

record params =
  name :: string
  sourceDir :: string
  sourceRef :: string
  sourceURL :: string
  dockerContext :: string
  builderImage :: string
  port :: string
  env :: "string \<rightharpoonup> string"

subsection \<open>Collaborators and the call trace\<close>

text \<open>
  Every call that the three functions make into the packages \<^verbatim>\<open>generator\<close>, \<^verbatim>\<open>app\<close>
  and \<^verbatim>\<open>latest\<close>, and the write to the output, is recorded as an event, in program
  order. A generator that holds the resolver chain also reports the names with which it
  invoked the chain; the model records each as \<open>ResolverInvoked\<close>, right after the call.
\<close>

datatype event =
    CallFromGitURL string
  | CallFromDirectory string
  | CallFromSourceRefAndDockerContext SourceRef string
  | CallFromNameAndResolver string PerfectMatchWeightedResolver
  | CallFromSTIBuilderImage ImageRef
  | CallFromSourceRef SourceRef
  | ResolverInvoked string
  | CallNewBuildPipeline string "ImageRef option" BuildStrategyRef SourceRef
  | CallNeedsDeployment
  | CallObjects
  | CallAddServices
  | CallEncode
  | CallWrite string

text \<open>
  The functions of the repository that \<^verbatim>\<open>generate.go\<close> calls and that are not among the
  sources are parameters of the model. The build-strategy generator is constructed with
  the resolver chain (\<^verbatim>\<open>NewBuildStrategyRefGenerator(source.DefaultDetectors, resolver)\<close>),
  so each of its methods takes the chain. \<open>'p\<close> is the pipeline, \<open>'o\<close> an output object,
  \<open>'a\<close> the acceptor. \<^verbatim>\<open>NeedsDeployment\<close> has a pointer receiver: it returns the updated
  pipeline. \<^verbatim>\<open>Write\<close> is the writer's method: the number of bytes it accepted, and its
  error.
\<close>

record ('p, 'o, 'a) collaborators =
  FromGitURL :: "string \<Rightarrow> error + SourceRef"
  FromDirectory :: "string \<Rightarrow> error + SourceRef"
  FromSourceRefAndDockerContext ::
    "PerfectMatchWeightedResolver \<Rightarrow> SourceRef \<Rightarrow> string \<Rightarrow>
     (error + BuildStrategyRef) \<times> string list"
  FromNameAndResolver ::
    "string \<Rightarrow> PerfectMatchWeightedResolver \<Rightarrow> (error + ImageRef) \<times> string list"
  FromSTIBuilderImage ::
    "PerfectMatchWeightedResolver \<Rightarrow> ImageRef \<Rightarrow> (error + BuildStrategyRef) \<times> string list"
  FromSourceRef ::
    "PerfectMatchWeightedResolver \<Rightarrow> SourceRef \<Rightarrow> (error + BuildStrategyRef) \<times> string list"
  NewBuildPipeline ::
    "string \<Rightarrow> ImageRef option \<Rightarrow> BuildStrategyRef \<Rightarrow> SourceRef \<Rightarrow> error + 'p"
  NeedsDeployment :: "'p \<Rightarrow> (string \<rightharpoonup> string) \<Rightarrow> error + 'p"
  NewAcceptFirst :: "'a"
  Objects :: "'p \<Rightarrow> 'a \<Rightarrow> error + 'o list"
  AddServices :: "'o list \<Rightarrow> 'o list"
  Encode :: "'o list \<Rightarrow> error + string"
  Write :: "string \<Rightarrow> nat \<times> error option"

subsection \<open>generateSourceRef\<close>

text \<open>
  \<^verbatim>\<open>
  func generateSourceRef(url string, dir string, ref string, name string) (*genapp.SourceRef, error) {
      srcRefGen := gen.NewSourceRefGenerator()
      var result *genapp.SourceRef
      var err error
      if len(url) > 0 {
          if result, err = srcRefGen.FromGitURL(url); err != nil {
              return nil, err
          }
      } else {
          if result, err = srcRefGen.FromDirectory(dir); err != nil {
              return nil, err
          }
      }
      if len(ref) > 0 {
          result.Ref = ref
      }
      if len(name) > 0 {
          result.Name = name
      }
      return result, nil
  }
  \<close>
\<close>

definition generateSourceRef ::
  "('p, 'o, 'a) collaborators \<Rightarrow> string \<Rightarrow> string \<Rightarrow> string \<Rightarrow> string \<Rightarrow>
   (error + SourceRef) \<times> event list" where
  "generateSourceRef D url dir ref nm =
     (case (if length url > 0 then (FromGitURL D url, [CallFromGitURL url])
            else (FromDirectory D dir, [CallFromDirectory dir])) of
        (Inl err, t) \<Rightarrow> (Inl err, t)
      | (Inr result0, t) \<Rightarrow>
          (let result1 = (if length ref > 0 then result0\<lparr>Ref := ref\<rparr> else result0);
               result2 = (if length nm > 0 then result1\<lparr>Name := nm\<rparr> else result1)
           in (Inr result2, t)))"

subsection \<open>generateBuildStrategyRef\<close>

text \<open>
  \<^verbatim>\<open>
  func generateBuildStrategyRef(srcRef *genapp.SourceRef, dockerContext string, builderImage string,
          resolver genapp.Resolver) (*genapp.BuildStrategyRef, error) {
      strategyRefGen := gen.NewBuildStrategyRefGenerator(source.DefaultDetectors, resolver)
      imageRefGen := gen.NewImageRefGenerator()
      if len(dockerContext) > 0 {
          return strategyRefGen.FromSourceRefAndDockerContext(*srcRef, dockerContext)
      } else if len(builderImage) > 0 {
          builderRef, err := imageRefGen.FromNameAndResolver(builderImage, resolver)
          if err != nil {
              return nil, err
          }
          return strategyRefGen.FromSTIBuilderImage(builderRef)
      } else {
          return strategyRefGen.FromSourceRef(*srcRef)
      }
  }
  \<close>
\<close>

definition generateBuildStrategyRef ::
  "('p, 'o, 'a) collaborators \<Rightarrow> SourceRef \<Rightarrow> string \<Rightarrow> string \<Rightarrow>
   PerfectMatchWeightedResolver \<Rightarrow> (error + BuildStrategyRef) \<times> event list" where
  "generateBuildStrategyRef D srcRef dockerCtx builderImg resolver =
     (if length dockerCtx > 0 then
        (case FromSourceRefAndDockerContext D resolver srcRef dockerCtx of
           (r, called) \<Rightarrow>
             (r, CallFromSourceRefAndDockerContext srcRef dockerCtx # map ResolverInvoked called))
      else if length builderImg > 0 then
        (case FromNameAndResolver D builderImg resolver of
           (Inl err, called) \<Rightarrow>
             (Inl err, CallFromNameAndResolver builderImg resolver # map ResolverInvoked called)
         | (Inr builderRef, called) \<Rightarrow>
             (case FromSTIBuilderImage D resolver builderRef of
                (r, called') \<Rightarrow>
                  (r, CallFromNameAndResolver builderImg resolver # map ResolverInvoked called @
                      CallFromSTIBuilderImage builderRef # map ResolverInvoked called')))
      else
        (case FromSourceRef D resolver srcRef of
           (r, called) \<Rightarrow> (r, CallFromSourceRef srcRef # map ResolverInvoked called)))"

subsection \<open>generateApp\<close>

text \<open>
  How a call of \<^verbatim>\<open>generateApp\<close> ends: it returns its \<^verbatim>\<open>error\<close> result (\<^verbatim>\<open>nil\<close> is
  \<open>None\<close>), or it panics on a nil pointer.
\<close>

datatype outcome = Returned "error option" | NilDereference

text \<open>
  The assignment \<^verbatim>\<open>strategyRef.Base.Info.Config.ExposedPorts = ports\<close>. It goes through
  the pointers \<^verbatim>\<open>Base\<close> and \<^verbatim>\<open>Info\<close>; where one of them is \<^verbatim>\<open>nil\<close> Go panics, and the
  model returns \<open>None\<close>. The strategy reference and the base image it points to are
  updated in place: the result is the strategy reference as every later statement
  sees it.
\<close>

definition assignExposedPorts :: "BuildStrategyRef \<Rightarrow> string set \<Rightarrow> BuildStrategyRef option" where
  "assignExposedPorts strategyRef ports =
     (case Base strategyRef of
        None \<Rightarrow> None
      | Some base \<Rightarrow>
          (case Info base of
             None \<Rightarrow> None
           | Some info \<Rightarrow>
               Some (strategyRef\<lparr>Base := Some (base\<lparr>Info := Some
                 (info\<lparr>Config := (Config info)\<lparr>ExposedPorts := ports\<rparr>\<rparr>)\<rparr>)\<rparr>)))"

text \<open>
  Lines 226 to 228:
  \<^verbatim>\<open>
  if len(input.port) > 0 {
      strategyRef.Base.Info.Config.ExposedPorts = map[string]struct{}{input.port: {}}
  }
  \<close>
\<close>

definition applyPort :: "string \<Rightarrow> BuildStrategyRef \<Rightarrow> BuildStrategyRef option" where
  "applyPort p strategyRef =
     (if length p > 0 then assignExposedPorts strategyRef {p} else Some strategyRef)"

text \<open>
  \<^verbatim>\<open>
  func generateApp(input params, imageResolver genapp.Resolver, out io.Writer) error {
      srcRef, err := generateSourceRef(input.sourceURL, input.sourceDir, input.sourceRef, input.name)
      if err != nil {
          return err
      }
      strategyRef, err := generateBuildStrategyRef(srcRef, input.dockerContext, input.builderImage, imageResolver)
      if err != nil {
          return err
      }
      if len(input.port) > 0 {
          strategyRef.Base.Info.Config.ExposedPorts = map[string]struct{}{input.port: {}}
      }
      pipeline, err := genapp.NewBuildPipeline(srcRef.Name, strategyRef.Base, strategyRef, srcRef)
      if err != nil {
          return err
      }
      env := genapp.Environment{}
      for k, v := range input.env {
          env[k] = v
      }
      if err := pipeline.NeedsDeployment(env); err != nil {
          return err
      }
      objects, err := pipeline.Objects(genapp.NewAcceptFirst())
      if err != nil {
          return err
      }
      objects = genapp.AddServices(objects)
      list := &kapi.List{Items: objects}
      output, err := latest.Codec.Encode(list)
      if err != nil {
          return err
      }
      _, err = out.Write(output)
      return err
  }
  \<close>
  The result is the outcome, the trace of the calls made, and the bytes the writer holds
  afterwards (\<open>out\<close> is what it held before).
\<close>

definition generateApp ::
  "('p, 'o, 'a) collaborators \<Rightarrow> params \<Rightarrow> PerfectMatchWeightedResolver \<Rightarrow> string \<Rightarrow>
   outcome \<times> event list \<times> string" where
  "generateApp D input imageResolver out =
     (case generateSourceRef D (sourceURL input) (sourceDir input) (sourceRef input)
             (name input) of
        (Inl err, t1) \<Rightarrow> (Returned (Some err), t1, out)
      | (Inr srcRef, t1) \<Rightarrow>
     (case generateBuildStrategyRef D srcRef (dockerContext input) (builderImage input)
             imageResolver of
        (Inl err, t2) \<Rightarrow> (Returned (Some err), t1 @ t2, out)
      | (Inr strategyRef0, t2) \<Rightarrow>
     (case applyPort (port input) strategyRef0 of
        None \<Rightarrow> (NilDereference, t1 @ t2, out)
      | Some strategyRef \<Rightarrow>
     (let t3 = t1 @ t2 @
            [CallNewBuildPipeline (Name srcRef) (Base strategyRef) strategyRef srcRef] in
     (case NewBuildPipeline D (Name srcRef) (Base strategyRef) strategyRef srcRef of
        Inl err \<Rightarrow> (Returned (Some err), t3, out)
      | Inr pipeline0 \<Rightarrow>
     (let environment = Map.empty ++ env input in
     (case NeedsDeployment D pipeline0 environment of
        Inl err \<Rightarrow> (Returned (Some err), t3 @ [CallNeedsDeployment], out)
      | Inr pipeline \<Rightarrow>
     (case Objects D pipeline (NewAcceptFirst D) of
        Inl err \<Rightarrow> (Returned (Some err), t3 @ [CallNeedsDeployment, CallObjects], out)
      | Inr objects0 \<Rightarrow>
     (let objects = AddServices D objects0 in
     (case Encode D objects of
        Inl err \<Rightarrow>
          (Returned (Some err),
           t3 @ [CallNeedsDeployment, CallObjects, CallAddServices, CallEncode], out)
      | Inr output \<Rightarrow>
     (case Write D output of
        (n, err) \<Rightarrow>
          (Returned err,
           t3 @ [CallNeedsDeployment, CallObjects, CallAddServices, CallEncode,
                 CallWrite output],
           out @ take n output))))))))))))"

subsection \<open>Reading a trace\<close>

text \<open>The names with which the resolver chain was invoked, in order.\<close>

fun invoked_with :: "event \<Rightarrow> string list" where
  "invoked_with (ResolverInvoked n) = [n]"
| "invoked_with _ = []"

definition chain_invocations :: "event list \<Rightarrow> string list" where
  "chain_invocations t = concat (map invoked_with t)"

text \<open>The calls that \<^verbatim>\<open>generate.go\<close> itself makes (everything but the invocations of the
  chain that a generator reports).\<close>

fun is_call :: "event \<Rightarrow> bool" where
  "is_call (ResolverInvoked n) = False"
| "is_call _ = True"

text \<open>Detection is \<^verbatim>\<open>strategyRefGen.FromSourceRef\<close>: the only entry into the detectors.\<close>

fun is_detection :: "event \<Rightarrow> bool" where
  "is_detection (CallFromSourceRef s) = True"
| "is_detection _ = False"

text \<open>The arguments of the calls of \<^verbatim>\<open>NewBuildPipeline\<close>, in order.\<close>

fun pipeline_args :: "event \<Rightarrow> (string \<times> ImageRef option \<times> BuildStrategyRef \<times> SourceRef) list" where
  "pipeline_args (CallNewBuildPipeline n b st s) = [(n, b, st, s)]"
| "pipeline_args _ = []"

definition pipeline_calls ::
  "event list \<Rightarrow> (string \<times> ImageRef option \<times> BuildStrategyRef \<times> SourceRef) list" where
  "pipeline_calls t = concat (map pipeline_args t)"

text \<open>The exposed ports an image reference declares; \<open>None\<close> where the reference or its
  metadata is absent.\<close>

definition exposed :: "ImageRef option \<Rightarrow> string set option" where
  "exposed b =
     (case b of
        None \<Rightarrow> None
      | Some i \<Rightarrow> (case Info i of None \<Rightarrow> None | Some d \<Rightarrow> Some (ExposedPorts (Config d))))"

subsection \<open>The resolver chain\<close>

text \<open>What one backend answers to \<^verbatim>\<open>resolve(name)\<close>: a match, or one of the two errors
  of section 4.3 of the specification.\<close>

datatype reply = Found ImageRef | ResolverNoMatchError | ResolverTransientError

definition ResolutionError :: error where
  "ResolutionError = Err ''ResolutionError''"

text \<open>
  Modelled from the spec: \<^verbatim>\<open>PerfectMatchWeightedResolver.Resolve\<close> (package
  \<^verbatim>\<open>pkg/generate/app\<close>) is not among the sources. Section 4.3: "iterate resolvers in
  insertion order; for each, invoke \<^verbatim>\<open>resolve(name)\<close>. A ResolverTransientError is logged
  and treated as "no match": iteration continues to the next resolver, never aborting
  the whole chain. The first resolver returning a successful match is used verbatim
  [...] If every resolver exhausts without a match, the chain fails with
  ResolutionError." The first argument is the behaviour of the backends; the second
  component of the result lists the resolvers that were invoked, in order.
\<close>

fun Resolve ::
  "(resolver \<Rightarrow> string \<Rightarrow> reply) \<Rightarrow> PerfectMatchWeightedResolver \<Rightarrow> string \<Rightarrow>
   (error + ImageRef) \<times> resolver list" where
  "Resolve backend [] nm = (Inl ResolutionError, [])"
| "Resolve backend (r # rs) nm =
     (case backend (Resolver r) nm of
        Found ref \<Rightarrow> (Inr ref, [Resolver r])
      | ResolverNoMatchError \<Rightarrow>
          (case Resolve backend rs nm of (res, invoked) \<Rightarrow> (res, Resolver r # invoked))
      | ResolverTransientError \<Rightarrow>
          (case Resolve backend rs nm of (res, invoked) \<Rightarrow> (res, Resolver r # invoked)))"

text \<open>Whether a backend has a match for a name, and the match.\<close>

definition matches :: "(resolver \<Rightarrow> string \<Rightarrow> reply) \<Rightarrow> string \<Rightarrow> resolver \<Rightarrow> bool" where
  "matches backend nm r = (case backend r nm of Found ref \<Rightarrow> True | _ \<Rightarrow> False)"

definition answer :: "(resolver \<Rightarrow> string \<Rightarrow> reply) \<Rightarrow> string \<Rightarrow> resolver \<Rightarrow> error + ImageRef" where
  "answer backend nm r = (case backend r nm of Found ref \<Rightarrow> Inr ref | _ \<Rightarrow> Inl ResolutionError)"

text \<open>A backend whose transient failures are answered as "no match" instead.\<close>

definition transient_as_no_match ::
  "(resolver \<Rightarrow> string \<Rightarrow> reply) \<Rightarrow> resolver \<Rightarrow> string \<Rightarrow> reply" where
  "transient_as_no_match backend r nm =
     (case backend r nm of
        ResolverTransientError \<Rightarrow> ResolverNoMatchError
      | other \<Rightarrow> other)"

text \<open>
  Modelled from the spec: \<^verbatim>\<open>ImageRefGenerator.FromNameAndResolver\<close> (package
  \<^verbatim>\<open>pkg/generate/generator\<close>) is not among the sources. Section 4.2: "if an explicit
  builder-image name is supplied, resolve it through the Image Resolver Chain and force
  the builder-image strategy". It resolves the name through the chain, once, and returns
  the chain's result; it reports that one invocation.
\<close>

definition FromNameAndResolver_spec ::
  "(resolver \<Rightarrow> string \<Rightarrow> reply) \<Rightarrow> string \<Rightarrow> PerfectMatchWeightedResolver \<Rightarrow>
   (error + ImageRef) \<times> string list" where
  "FromNameAndResolver_spec backend nm chain = (fst (Resolve backend chain nm), [nm])"

text \<open>
  Modelled from the spec: \<^verbatim>\<open>BuildStrategyRefGenerator.FromSTIBuilderImage\<close> (package
  \<^verbatim>\<open>pkg/generate/generator\<close>) is not among the sources. Section 4.2, as above: it
  forces the builder-image strategy on the image already resolved, and does not consult
  the chain.
\<close>

definition FromSTIBuilderImage_spec ::
  "PerfectMatchWeightedResolver \<Rightarrow> ImageRef \<Rightarrow> (error + BuildStrategyRef) \<times> string list" where
  "FromSTIBuilderImage_spec chain builderRef =
     (Inr \<lparr>Kind = BuilderImage, Base = Some builderRef, DockerContext = []\<rparr>, [])"

subsection \<open>Concrete collaborators\<close>

text \<open>
  Stub collaborators on which the functions can be run. \<open>stub k\<close> fails at stage \<open>k\<close>
  (1 source reference, 2 strategy, 3 pipeline, 4 deployment, 5 objects, 6 encoding,
  7 writing) and nowhere else; \<open>stub 0\<close> never fails. Detection finds a base image
  that has not been inspected (no metadata); the other two strategy paths have one that
  exposes port 9090.
\<close>

definition ruby_image :: ImageRef where
  "ruby_image =
     \<lparr>Namespace = ''openshift'', Repository = ''ruby-20-centos'', Tag = ''latest'',
      Registry = ''registry.example.com'',
      Info = Some \<lparr>Config = \<lparr>ExposedPorts = {''9090''}\<rparr>\<rparr>\<rparr>"

definition stub :: "nat \<Rightarrow> (string, string, unit) collaborators" where
  "stub k =
     \<lparr>FromGitURL = (\<lambda>u. if k = 1 then Inl (Err ''source'')
         else Inr \<lparr>Name = ''hello'', Origin = u, Ref = ''master'', ContextDir = []\<rparr>),
      FromDirectory = (\<lambda>d. if k = 1 then Inl (Err ''source'')
         else Inr \<lparr>Name = d, Origin = d, Ref = [], ContextDir = []\<rparr>),
      FromSourceRefAndDockerContext = (\<lambda>chain s c.
         (if k = 2 then Inl (Err ''strategy'')
          else Inr \<lparr>Kind = ContainerNative, Base = Some ruby_image, DockerContext = c\<rparr>, [])),
      FromNameAndResolver = (\<lambda>n chain.
         (if k = 2 then Inl (Err ''strategy'') else Inr (ruby_image\<lparr>Repository := n\<rparr>), [n])),
      FromSTIBuilderImage = (\<lambda>chain r.
         (Inr \<lparr>Kind = BuilderImage, Base = Some r, DockerContext = []\<rparr>, [])),
      FromSourceRef = (\<lambda>chain s.
         (if k = 2 then Inl (Err ''strategy'')
          else Inr \<lparr>Kind = BuilderImage, Base = Some (ruby_image\<lparr>Info := None\<rparr>),
                    DockerContext = []\<rparr>, [''ruby-20-centos''])),
      NewBuildPipeline = (\<lambda>n b st s. if k = 3 then Inl (Err ''pipeline'') else Inr n),
      NeedsDeployment = (\<lambda>p e. if k = 4 then Inl (Err ''deployment'') else Inr p),
      NewAcceptFirst = (),
      Objects = (\<lambda>p a. if k = 5 then Inl (Err ''objects'') else Inr [''build '', ''deploy '']),
      AddServices = (\<lambda>os. os @ [''service '']),
      Encode = (\<lambda>os. if k = 6 then Inl (Err ''encoding'') else Inr (concat os)),
      Write = (\<lambda>bytes. if k = 7 then (3, Some (Err ''writing'')) else (length bytes, None))\<rparr>"

text \<open>Two command lines: a builder image with a name, a ref and a port; and a directory
  alone (detection) with a port.\<close>

definition builder_input :: params where
  "builder_input =
     \<lparr>name = ''app'', sourceDir = [], sourceRef = ''stable'',
      sourceURL = ''https://example.com/hello.git'', dockerContext = [],
      builderImage = ''ruby'', port = ''8080'', env = Map.empty\<rparr>"

definition detect_input :: params where
  "detect_input =
     \<lparr>name = [], sourceDir = ''hello'', sourceRef = [],
      sourceURL = [], dockerContext = [],
      builderImage = [], port = ''8080'', env = Map.empty\<rparr>"

text \<open>A chain with all three resolvers, and backends of which the local one is
  unreachable, the image streams have a match and the registry has another.\<close>

definition full_chain :: PerfectMatchWeightedResolver where
  "full_chain =
     newImageResolver ''myproject'' (Some (OsClient ''master'')) (Some (DockerClient ''unix''))"

primrec demo_backend :: "resolver \<Rightarrow> string \<Rightarrow> reply" where
  "demo_backend (DockerClientResolver c) nm = ResolverTransientError"
| "demo_backend (ImageStreamResolver c i nss) nm = Found (ruby_image\<lparr>Repository := nm\<rparr>)"
| "demo_backend (DockerRegistryResolver c) nm = Found (ruby_image\<lparr>Registry := ''docker.io''\<rparr>)"

text \<open>A source reference, and the stub collaborators with the two generators of the
  builder-image path replaced by their models from the specification.\<close>

definition hello_src :: SourceRef where
  "hello_src =
     \<lparr>Name = ''hello'', Origin = ''https://example.com/hello.git'', Ref = ''master'',
      ContextDir = []\<rparr>"

definition spec_stub :: "(string, string, unit) collaborators" where
  "spec_stub =
     (stub 0)\<lparr>FromNameAndResolver := FromNameAndResolver_spec demo_backend,
              FromSTIBuilderImage := FromSTIBuilderImage_spec\<rparr>"

section \<open>The resolver chain that the command builds\<close>

text \<open>
  \<^verbatim>\<open>newImageResolver\<close> alone keeps the order and leaves out exactly the docker resolver
  when the docker pointer is nil and the image-stream resolver when the interface is the
  nil interface.
\<close>

lemma newImageResolver_order:
  "map Resolver (newImageResolver namespace osClient dockerClient) =
     (case dockerClient of None \<Rightarrow> [] | Some dc \<Rightarrow> [DockerClientResolver dc]) @
     (case osClient of
        None \<Rightarrow> []
      | Some oc \<Rightarrow>
          [ImageStreamResolver oc oc
             (if namespace = [] then [''default''] else [namespace, ''default''])]) @
     [DockerRegistryResolver NewClient]"
  by (cases dockerClient; cases osClient) (simp_all add: newImageResolver_def)

text \<open>
  The command never hands \<^verbatim>\<open>newImageResolver\<close> the nil interface. Whatever the three
  factory calls return, the chain holds the image-stream resolver; an error of
  \<^verbatim>\<open>f.Clients\<close> or of \<^verbatim>\<open>dockerHelper.GetClient\<close> only replaces its client by the nil
  pointer. The docker resolver is there exactly when the docker pointer is not nil,
  whatever the error of \<^verbatim>\<open>GetClient\<close>.
\<close>

lemma Run_imageResolver_order:
  "map Resolver (Run_imageResolver (oc, e1) (dc, e2) (ns, e3)) =
     (case dc of None \<Rightarrow> [] | Some d \<Rightarrow> [DockerClientResolver d]) @
     [ImageStreamResolver
        (if e1 \<noteq> None \<or> e2 \<noteq> None then NilClient else oc)
        (if e1 \<noteq> None \<or> e2 \<noteq> None then NilClient else oc)
        (if e3 \<noteq> None \<or> ns = [] then [''default''] else [ns, ''default'']),
      DockerRegistryResolver NewClient]"
  by (cases dc) (simp_all add: Run_imageResolver_def newImageResolver_def)

text \<open>
  The guard after \<^verbatim>\<open>dockerHelper.GetClient()\<close> assigns \<^verbatim>\<open>osClient\<close>, not
  \<^verbatim>\<open>dockerClient\<close>: when only the docker client cannot be configured, the image-stream
  resolver stays in the chain but has lost the client that was configured for it.
\<close>

lemma Run_docker_failure_clears_os_client:
  "Run_imageResolver (OsClient ''https://master:8443'', None)
       (None, Some (Err ''cannot connect to docker'')) (''myproject'', None) =
     [\<lparr>Resolver = ImageStreamResolver NilClient NilClient [''myproject'', ''default''],
       Weight = 0\<rparr>,
      \<lparr>Resolver = DockerRegistryResolver NewClient, Weight = 0\<rparr>]"
  by (simp add: Run_imageResolver_def newImageResolver_def)

text \<open>
  Claim C1 (the chain is docker, image stream, registry, and each of the first two
  resolvers is in the chain exactly when its own backend could be configured). The
  command does not keep this. Here \<^verbatim>\<open>f.Clients\<close> returns no client and an error, and the
  docker client is configured: the guard on line 89 makes \<^verbatim>\<open>osClient\<close> the nil pointer,
  the call on line 120 wraps it in an interface, the test \<^verbatim>\<open>osClient != nil\<close> on line 148
  holds of that interface, and the chain has the image-stream resolver, on a nil client,
  although its backend could not be configured.
\<close>

theorem Run_clients_failure_keeps_image_stream_resolver:
  "Run_imageResolver (NilClient, Some (Err ''no OpenShift configuration''))
       (Some (DockerClient ''unix:///var/run/docker.sock''), None) (''myproject'', None) =
     [\<lparr>Resolver = DockerClientResolver (DockerClient ''unix:///var/run/docker.sock''),
       Weight = 0\<rparr>,
      \<lparr>Resolver = ImageStreamResolver NilClient NilClient [''myproject'', ''default''],
       Weight = 0\<rparr>,
      \<lparr>Resolver = DockerRegistryResolver NewClient, Weight = 0\<rparr>]"
  by (simp add: Run_imageResolver_def newImageResolver_def)

text \<open>
  Claim C4: the namespace list of the image-stream resolver. Whenever the chain holds an
  image-stream resolver (the OpenShift client is there), it holds one, and its
  \<^verbatim>\<open>Namespaces\<close> are the caller's namespace followed by \<^verbatim>\<open>"default"\<close>, or \<^verbatim>\<open>"default"\<close>
  alone when the caller's namespace is empty: never empty, and \<^verbatim>\<open>"default"\<close> never before
  the caller's namespace.
\<close>

theorem newImageResolver_namespaces:
  "concat (map (Namespaces \<circ> Resolver) (newImageResolver namespace osClient dockerClient)) =
     (case osClient of
        None \<Rightarrow> []
      | Some oc \<Rightarrow> [if namespace = [] then [''default''] else [namespace, ''default'']])"
  by (cases dockerClient; cases osClient) (simp_all add: newImageResolver_def)

theorem newImageResolver_namespaces_witness:
  "concat (map (Namespaces \<circ> Resolver)
       (newImageResolver ''myproject'' (Some (OsClient ''m'')) None)) =
     [[''myproject'', ''default'']] \<and>
   concat (map (Namespaces \<circ> Resolver)
       (newImageResolver [] (Some (OsClient ''m'')) (Some (DockerClient ''d'')))) =
     [[''default'']]"
  using newImageResolver_namespaces [of "''myproject''" "Some (OsClient ''m'')" None]
    newImageResolver_namespaces [of "[]" "Some (OsClient ''m'')" "Some (DockerClient ''d'')"]
  by simp

section \<open>The source reference\<close>

text \<open>
  Claim C9: the caller's \<^verbatim>\<open>ref\<close> and \<^verbatim>\<open>name\<close> win over what the generator detected.
  Whatever the generator returns for the URL or the directory, a source reference that
  \<^verbatim>\<open>generateSourceRef\<close> returns carries the caller's ref when that is non-empty and the
  caller's name when that is non-empty.
\<close>

theorem generateSourceRef_overrides:
  "fst (generateSourceRef D url dir ref nm) = Inr r \<Longrightarrow>
     (ref \<noteq> [] \<longrightarrow> Ref r = ref) \<and> (nm \<noteq> [] \<longrightarrow> Name r = nm)"
  by (auto simp: generateSourceRef_def Let_def split: if_splits sum.splits prod.splits)

theorem generateSourceRef_overrides_witness:
  "fst (generateSourceRef (stub 0) ''https://example.com/hello.git'' [] ''stable'' ''app'') =
     Inr \<lparr>Name = ''app'', Origin = ''https://example.com/hello.git'', Ref = ''stable'',
          ContextDir = []\<rparr> \<and>
   FromGitURL (stub 0) ''https://example.com/hello.git'' =
     Inr \<lparr>Name = ''hello'', Origin = ''https://example.com/hello.git'', Ref = ''master'',
          ContextDir = []\<rparr>"
  using generateSourceRef_overrides
    [of "stub 0" "''https://example.com/hello.git''" "[]" "''stable''" "''app''"]
  by (simp add: generateSourceRef_def stub_def)

section \<open>The build strategy\<close>

text \<open>
  Claim C2: the three paths of \<^verbatim>\<open>generateBuildStrategyRef\<close>. A docker context forces
  the docker-context generator, whatever the builder image; otherwise a builder image
  forces the builder-image generators (the image resolved by name, then the strategy built
  on it, or the resolution's error); otherwise detection runs. On each path the result is
  that path's result and the calls made are that path's calls alone: the paths exclude
  each other and cover every input, and detection (\<^verbatim>\<open>FromSourceRef\<close>) is called on the
  third path only.
\<close>

theorem generateBuildStrategyRef_paths:
  "(dockerCtx \<noteq> [] \<longrightarrow>
      fst (generateBuildStrategyRef D s dockerCtx builderImg chain) =
        fst (FromSourceRefAndDockerContext D chain s dockerCtx) \<and>
      filter is_call (snd (generateBuildStrategyRef D s dockerCtx builderImg chain)) =
        [CallFromSourceRefAndDockerContext s dockerCtx]) \<and>
   (dockerCtx = [] \<and> builderImg \<noteq> [] \<longrightarrow>
      fst (generateBuildStrategyRef D s dockerCtx builderImg chain) =
        (case fst (FromNameAndResolver D builderImg chain) of
           Inl e \<Rightarrow> Inl e
         | Inr builderRef \<Rightarrow> fst (FromSTIBuilderImage D chain builderRef)) \<and>
      filter is_call (snd (generateBuildStrategyRef D s dockerCtx builderImg chain)) =
        CallFromNameAndResolver builderImg chain #
        (case fst (FromNameAndResolver D builderImg chain) of
           Inl e \<Rightarrow> []
         | Inr builderRef \<Rightarrow> [CallFromSTIBuilderImage builderRef])) \<and>
   (dockerCtx = [] \<and> builderImg = [] \<longrightarrow>
      fst (generateBuildStrategyRef D s dockerCtx builderImg chain) =
        fst (FromSourceRef D chain s) \<and>
      filter is_call (snd (generateBuildStrategyRef D s dockerCtx builderImg chain)) =
        [CallFromSourceRef s])"
  by (auto simp: generateBuildStrategyRef_def split: prod.splits sum.splits)

theorem generateBuildStrategyRef_paths_witness:
  "fst (generateBuildStrategyRef (stub 0) hello_src ''ctx'' ''ruby'' full_chain) =
     Inr \<lparr>Kind = ContainerNative, Base = Some ruby_image, DockerContext = ''ctx''\<rparr> \<and>
   filter is_call (snd (generateBuildStrategyRef (stub 0) hello_src ''ctx'' ''ruby'' full_chain)) =
     [CallFromSourceRefAndDockerContext hello_src ''ctx''] \<and>
   fst (generateBuildStrategyRef (stub 0) hello_src [] ''ruby'' full_chain) =
     Inr \<lparr>Kind = BuilderImage, Base = Some (ruby_image\<lparr>Repository := ''ruby''\<rparr>),
          DockerContext = []\<rparr> \<and>
   filter is_call (snd (generateBuildStrategyRef (stub 0) hello_src [] ''ruby'' full_chain)) =
     [CallFromNameAndResolver ''ruby'' full_chain,
      CallFromSTIBuilderImage (ruby_image\<lparr>Repository := ''ruby''\<rparr>)] \<and>
   fst (generateBuildStrategyRef (stub 0) hello_src [] [] full_chain) =
     Inr \<lparr>Kind = BuilderImage, Base = Some (ruby_image\<lparr>Info := None\<rparr>), DockerContext = []\<rparr> \<and>
   filter is_call (snd (generateBuildStrategyRef (stub 0) hello_src [] [] full_chain)) =
     [CallFromSourceRef hello_src]"
  using generateBuildStrategyRef_paths [of "''ctx''" "stub 0" hello_src "''ruby''" full_chain]
    generateBuildStrategyRef_paths [of "[]" "stub 0" hello_src "''ruby''" full_chain]
    generateBuildStrategyRef_paths [of "[]" "stub 0" hello_src "[]" full_chain]
  by (simp add: stub_def)

text \<open>
  Claim C5: an explicit builder image and no docker context. With the two generators of
  that path as the specification describes them, the resolver chain is invoked once,
  with the builder image's name, and detection is not called.
\<close>

theorem builder_image_resolves_once:
  assumes "FromNameAndResolver D = FromNameAndResolver_spec backend"
    and "FromSTIBuilderImage D = FromSTIBuilderImage_spec"
    and "builderImg \<noteq> []"
  shows "chain_invocations (snd (generateBuildStrategyRef D s [] builderImg chain)) =
           [builderImg] \<and>
         filter is_detection (snd (generateBuildStrategyRef D s [] builderImg chain)) = []"
  using assms
  by (auto simp: generateBuildStrategyRef_def chain_invocations_def
      FromNameAndResolver_spec_def FromSTIBuilderImage_spec_def
      split: prod.splits sum.splits)

theorem builder_image_resolves_once_witness:
  "chain_invocations (snd (generateBuildStrategyRef spec_stub hello_src [] ''ruby'' full_chain)) =
     [''ruby''] \<and>
   filter is_detection (snd (generateBuildStrategyRef spec_stub hello_src [] ''ruby'' full_chain)) =
     [] \<and>
   FromNameAndResolver spec_stub = FromNameAndResolver_spec demo_backend \<and>
   FromSTIBuilderImage spec_stub = FromSTIBuilderImage_spec"
  using builder_image_resolves_once [of spec_stub demo_backend "''ruby''" hello_src full_chain]
  by (simp add: spec_stub_def)

section \<open>First match in the resolver chain\<close>

lemma Resolve_invoked:
  "snd (Resolve backend chain nm) =
     takeWhile (\<lambda>r. \<not> matches backend nm r) (map Resolver chain) @
     take 1 (dropWhile (\<lambda>r. \<not> matches backend nm r) (map Resolver chain))"
  by (induction chain) (auto simp: matches_def split: reply.splits prod.splits)

lemma Resolve_result:
  "fst (Resolve backend chain nm) =
     (case find (matches backend nm) (map Resolver chain) of
        None \<Rightarrow> Inl ResolutionError
      | Some r \<Rightarrow> answer backend nm r)"
  by (induction chain) (auto simp: matches_def answer_def split: reply.splits prod.splits)

lemma Resolve_transient:
  "Resolve (transient_as_no_match backend) chain nm = Resolve backend chain nm"
  by (induction chain) (auto simp: transient_as_no_match_def split: reply.splits prod.splits)

lemma Resolve_weights:
  "Resolve backend (map (\<lambda>r. r\<lparr>Weight := w r\<rparr>) chain) nm = Resolve backend chain nm"
  by (induction chain) (auto split: reply.splits prod.splits)

lemma newImageResolver_weights:
  "list_all (\<lambda>r. Weight r = 0) (newImageResolver namespace osClient dockerClient)"
  by (cases dockerClient; cases osClient) (simp_all add: newImageResolver_def)

text \<open>
  Claim C3: resolution in the chain is first match in insertion order. The resolvers
  invoked are those before the first one that has a match, in the chain's order, and that
  one; none after it. The result is that resolver's match, or \<open>ResolutionError\<close> when no
  resolver has one. A transient failure counts as no match: answering every transient
  failure with "no match" changes neither the result nor the resolvers invoked. The
  weights play no part: any other weights give the same result and the same invocations;
  and every weight in the chain that \<^verbatim>\<open>newImageResolver\<close> builds is 0.
\<close>

theorem Resolve_first_match:
  "snd (Resolve backend chain nm) =
     takeWhile (\<lambda>r. \<not> matches backend nm r) (map Resolver chain) @
     take 1 (dropWhile (\<lambda>r. \<not> matches backend nm r) (map Resolver chain)) \<and>
   fst (Resolve backend chain nm) =
     (case find (matches backend nm) (map Resolver chain) of
        None \<Rightarrow> Inl ResolutionError
      | Some r \<Rightarrow> answer backend nm r) \<and>
   Resolve (transient_as_no_match backend) chain nm = Resolve backend chain nm \<and>
   Resolve backend (map (\<lambda>r. r\<lparr>Weight := w r\<rparr>) chain) nm = Resolve backend chain nm \<and>
   list_all (\<lambda>r. Weight r = 0) (newImageResolver namespace osClient dockerClient)"
  by (simp only: Resolve_invoked [symmetric] Resolve_result [symmetric] Resolve_transient
      Resolve_weights newImageResolver_weights simp_thms)

theorem Resolve_first_match_witness:
  "snd (Resolve demo_backend full_chain ''ruby'') =
     [DockerClientResolver (DockerClient ''unix''),
      ImageStreamResolver (OsClient ''master'') (OsClient ''master'')
        [''myproject'', ''default'']] \<and>
   fst (Resolve demo_backend full_chain ''ruby'') = Inr (ruby_image\<lparr>Repository := ''ruby''\<rparr>) \<and>
   map Resolver full_chain =
     [DockerClientResolver (DockerClient ''unix''),
      ImageStreamResolver (OsClient ''master'') (OsClient ''master'')
        [''myproject'', ''default''],
      DockerRegistryResolver NewClient] \<and>
   list_all (\<lambda>r. Weight r = 0) full_chain"
  using Resolve_first_match [of demo_backend full_chain "''ruby''" "\<lambda>r. 1" "''myproject''"
      "Some (OsClient ''master'')" "Some (DockerClient ''unix'')"]
  by (simp add: full_chain_def newImageResolver_def matches_def answer_def)

section \<open>generateApp: the port override\<close>

subsection \<open>Traces of the first two stages\<close>

lemma pipeline_calls_append:
  "pipeline_calls (t @ u) = pipeline_calls t @ pipeline_calls u"
  by (simp add: pipeline_calls_def)

lemma pipeline_calls_Cons:
  "pipeline_calls (e # t) = pipeline_args e @ pipeline_calls t"
  by (simp add: pipeline_calls_def)

lemma generateSourceRef_quiet:
  "generateSourceRef D url dir ref nm = (r, t) \<Longrightarrow>
     list_all (\<lambda>e. pipeline_args e = [] \<and> e \<noteq> CallAddServices) t"
  by (auto simp: generateSourceRef_def Let_def split: sum.splits if_splits)

lemma generateBuildStrategyRef_quiet:
  "generateBuildStrategyRef D s dockerCtx builderImg chain = (r, t) \<Longrightarrow>
     list_all (\<lambda>e. pipeline_args e = [] \<and> e \<noteq> CallAddServices) t"
  by (auto simp: generateBuildStrategyRef_def list_all_iff
      split: prod.splits sum.splits if_splits)

lemma quiet_pipeline_calls:
  "list_all (\<lambda>e. pipeline_args e = [] \<and> e \<noteq> CallAddServices) t \<Longrightarrow> pipeline_calls t = []"
  by (induction t) (auto simp: pipeline_calls_def)

lemma quiet_takeWhile:
  "list_all (\<lambda>e. pipeline_args e = [] \<and> e \<noteq> CallAddServices) t \<Longrightarrow>
     takeWhile (\<lambda>e. pipeline_args e = []) (t @ CallNewBuildPipeline n b st s # rest) = t"
  by (induction t) auto

lemma quiet_no_services:
  "list_all (\<lambda>e. pipeline_args e = [] \<and> e \<noteq> CallAddServices) t \<Longrightarrow>
     CallAddServices \<notin> set (takeWhile (\<lambda>e. pipeline_args e = []) t)"
  by (induction t) auto

subsection \<open>The assignment\<close>

lemma assignExposedPorts_exposed:
  "assignExposedPorts st0 ports = Some st \<Longrightarrow> exposed (Base st) = Some ports"
  by (auto simp: assignExposedPorts_def exposed_def split: option.splits)

lemma assignExposedPorts_frame:
  "assignExposedPorts st0 ports = Some st \<Longrightarrow>
     Kind st = Kind st0 \<and> DockerContext st = DockerContext st0 \<and>
     map_option Namespace (Base st) = map_option Namespace (Base st0) \<and>
     map_option Repository (Base st) = map_option Repository (Base st0) \<and>
     map_option Tag (Base st) = map_option Tag (Base st0) \<and>
     map_option Registry (Base st) = map_option Registry (Base st0)"
  by (auto simp: assignExposedPorts_def split: option.splits)

subsection \<open>The trace of generateApp up to pipeline construction\<close>

lemma generateApp_trace:
  assumes "generateSourceRef D (sourceURL input) (sourceDir input) (sourceRef input)
             (name input) = (Inr s, t1)"
    and "generateBuildStrategyRef D s (dockerContext input) (builderImage input) chain =
           (Inr st0, t2)"
    and "applyPort (port input) st0 = Some st"
  shows "\<exists>rest. fst (snd (generateApp D input chain out)) =
           (t1 @ t2) @ CallNewBuildPipeline (Name s) (Base st) st s # rest \<and>
           pipeline_calls rest = []"
  using assms
  by (auto simp: generateApp_def Let_def pipeline_calls_def split: sum.splits prod.splits)

lemma generateApp_trace_panic:
  assumes "generateSourceRef D (sourceURL input) (sourceDir input) (sourceRef input)
             (name input) = (Inr s, t1)"
    and "generateBuildStrategyRef D s (dockerContext input) (builderImage input) chain =
           (Inr st0, t2)"
    and "applyPort (port input) st0 = None"
  shows "generateApp D input chain out = (NilDereference, t1 @ t2, out)"
  using assms by (simp add: generateApp_def)

lemma generateApp_cases:
  assumes run: "generateApp D input chain out = (res, t, out')"
  shows "list_all (\<lambda>e. pipeline_args e = [] \<and> e \<noteq> CallAddServices) t \<or>
     (\<exists>pre s st0 st rest.
        t = pre @ CallNewBuildPipeline (Name s) (Base st) st s # rest \<and>
        list_all (\<lambda>e. pipeline_args e = [] \<and> e \<noteq> CallAddServices) pre \<and>
        pipeline_calls rest = [] \<and>
        applyPort (port input) st0 = Some st)"
proof -
  obtain r1 t1 where g1:
    "generateSourceRef D (sourceURL input) (sourceDir input) (sourceRef input) (name input) =
       (r1, t1)"
    by (cases "generateSourceRef D (sourceURL input) (sourceDir input) (sourceRef input)
          (name input)")
  have q1: "list_all (\<lambda>e. pipeline_args e = [] \<and> e \<noteq> CallAddServices) t1"
    using g1 by (rule generateSourceRef_quiet)
  show ?thesis
  proof (cases r1)
    case (Inl e)
    with run g1 have "t = t1" by (simp add: generateApp_def)
    with q1 show ?thesis by simp
  next
    case (Inr s)
    obtain r2 t2 where g2:
      "generateBuildStrategyRef D s (dockerContext input) (builderImage input) chain =
         (r2, t2)"
      by (cases "generateBuildStrategyRef D s (dockerContext input) (builderImage input) chain")
    have q2: "list_all (\<lambda>e. pipeline_args e = [] \<and> e \<noteq> CallAddServices) (t1 @ t2)"
      using q1 generateBuildStrategyRef_quiet [OF g2] by simp
    show ?thesis
    proof (cases r2)
      case (Inl e)
      with run g1 g2 Inr have "t = t1 @ t2" by (simp add: generateApp_def)
      with q2 show ?thesis by simp
    next
      case st0: (Inr st0)
      show ?thesis
      proof (cases "applyPort (port input) st0")
        case None
        with run g1 g2 Inr st0 have "t = t1 @ t2" by (simp add: generateApp_def)
        with q2 show ?thesis by simp
      next
        case (Some st)
        from generateApp_trace [OF g1 [unfolded Inr] g2 [unfolded st0] Some, of out] run
        have "\<exists>rest. t = (t1 @ t2) @ CallNewBuildPipeline (Name s) (Base st) st s # rest \<and>
             pipeline_calls rest = []"
          by simp
        with q2 Some show ?thesis by blast
      qed
    qed
  qed
qed

text \<open>
  Claim C6: the port override is in place before the pipeline is assembled and before
  services are synthesised. With a non-empty port, in every run of \<^verbatim>\<open>generateApp\<close>, at
  every call of \<^verbatim>\<open>NewBuildPipeline\<close> the base image handed over (which is also the base of
  the strategy handed over) exposes exactly the caller's port, whatever strategy
  generation had found; and \<^verbatim>\<open>AddServices\<close> is not called before \<^verbatim>\<open>NewBuildPipeline\<close>.
\<close>

theorem port_override_before_pipeline:
  assumes "port input \<noteq> []"
  shows "list_all (\<lambda>(n, b, st, s). exposed b = Some {port input} \<and> Base st = b)
           (pipeline_calls (fst (snd (generateApp D input chain out)))) \<and>
         CallAddServices \<notin> set (takeWhile (\<lambda>e. pipeline_args e = [])
           (fst (snd (generateApp D input chain out))))"
proof -
  obtain res t out' where run: "generateApp D input chain out = (res, t, out')"
    by (cases "generateApp D input chain out")
  from generateApp_cases [OF run] show ?thesis
  proof
    assume "list_all (\<lambda>e. pipeline_args e = [] \<and> e \<noteq> CallAddServices) t"
    then show ?thesis
      using run by (simp add: quiet_pipeline_calls quiet_no_services)
  next
    assume "\<exists>pre s st0 st rest.
        t = pre @ CallNewBuildPipeline (Name s) (Base st) st s # rest \<and>
        list_all (\<lambda>e. pipeline_args e = [] \<and> e \<noteq> CallAddServices) pre \<and>
        pipeline_calls rest = [] \<and>
        applyPort (port input) st0 = Some st"
    then obtain pre s st0 st rest where
      t: "t = pre @ CallNewBuildPipeline (Name s) (Base st) st s # rest"
      and pre: "list_all (\<lambda>e. pipeline_args e = [] \<and> e \<noteq> CallAddServices) pre"
      and rest: "pipeline_calls rest = []"
      and ap: "applyPort (port input) st0 = Some st"
      by blast
    from ap assms have ex: "exposed (Base st) = Some {port input}"
      by (simp add: applyPort_def assignExposedPorts_exposed)
    have pc: "pipeline_calls t = [(Name s, Base st, st, s)]"
      using t rest quiet_pipeline_calls [OF pre]
      by (simp add: pipeline_calls_append pipeline_calls_Cons)
    have tw: "takeWhile (\<lambda>e. pipeline_args e = []) t = pre"
      unfolding t by (rule quiet_takeWhile [OF pre])
    have "CallAddServices \<notin> set pre"
      using pre by (auto simp: list_all_iff)
    with pc tw ex run show ?thesis by simp
  qed
qed

lemma run_builder_input:
  "generateApp (stub 0) builder_input full_chain [] =
     (Returned None,
      [CallFromGitURL ''https://example.com/hello.git'',
       CallFromNameAndResolver ''ruby'' full_chain,
       ResolverInvoked ''ruby'',
       CallFromSTIBuilderImage (ruby_image\<lparr>Repository := ''ruby''\<rparr>),
       CallNewBuildPipeline ''app''
         (Some (ruby_image\<lparr>Repository := ''ruby'',
            Info := Some \<lparr>Config = \<lparr>ExposedPorts = {''8080''}\<rparr>\<rparr>\<rparr>))
         \<lparr>Kind = BuilderImage,
          Base = Some (ruby_image\<lparr>Repository := ''ruby'',
            Info := Some \<lparr>Config = \<lparr>ExposedPorts = {''8080''}\<rparr>\<rparr>\<rparr>),
          DockerContext = []\<rparr>
         \<lparr>Name = ''app'', Origin = ''https://example.com/hello.git'', Ref = ''stable'',
          ContextDir = []\<rparr>,
       CallNeedsDeployment, CallObjects, CallAddServices, CallEncode,
       CallWrite ''build deploy service ''],
      ''build deploy service '')"
  by (simp add: generateApp_def generateSourceRef_def generateBuildStrategyRef_def
      applyPort_def assignExposedPorts_def stub_def builder_input_def ruby_image_def)

theorem port_override_before_pipeline_witness:
  "port builder_input = ''8080'' \<and>
   pipeline_calls (fst (snd (generateApp (stub 0) builder_input full_chain []))) =
     [(''app'',
       Some (ruby_image\<lparr>Repository := ''ruby'',
          Info := Some \<lparr>Config = \<lparr>ExposedPorts = {''8080''}\<rparr>\<rparr>\<rparr>),
       \<lparr>Kind = BuilderImage,
        Base = Some (ruby_image\<lparr>Repository := ''ruby'',
          Info := Some \<lparr>Config = \<lparr>ExposedPorts = {''8080''}\<rparr>\<rparr>\<rparr>),
        DockerContext = []\<rparr>,
       \<lparr>Name = ''app'', Origin = ''https://example.com/hello.git'', Ref = ''stable'',
        ContextDir = []\<rparr>)] \<and>
   exposed (Some (ruby_image\<lparr>Repository := ''ruby'',
          Info := Some \<lparr>Config = \<lparr>ExposedPorts = {''8080''}\<rparr>\<rparr>\<rparr>)) = Some {''8080''} \<and>
   exposed (Some ruby_image) = Some {''9090''}"
  using port_override_before_pipeline [of builder_input "stub 0" full_chain "[]"]
  by (simp add: run_builder_input pipeline_calls_def exposed_def)
    (simp add: builder_input_def ruby_image_def)

section \<open>generateApp: what happens to the references\<close>

text \<open>
  Claim C7 says that no reference is modified once produced. The code modifies two.
  With a builder image and a port, the image reference that the image-reference
  generator returned exposes port 9090, and the one that pipeline construction receives
  exposes port 8080: line 227 has assigned the port set in between. In the same run the
  source reference that the generator produced is named \<^verbatim>\<open>hello\<close> at ref \<^verbatim>\<open>master\<close>, and
  the one that pipeline construction receives is named \<^verbatim>\<open>app\<close> at ref \<^verbatim>\<open>stable\<close>.
\<close>

theorem references_modified_counterexample:
  "fst (FromNameAndResolver (stub 0) (builderImage builder_input) full_chain) =
     Inr (ruby_image\<lparr>Repository := ''ruby''\<rparr>) \<and>
   map (\<lambda>(n, b, st, s). b)
       (pipeline_calls (fst (snd (generateApp (stub 0) builder_input full_chain [])))) =
     [Some (ruby_image\<lparr>Repository := ''ruby'',
        Info := Some \<lparr>Config = \<lparr>ExposedPorts = {''8080''}\<rparr>\<rparr>\<rparr>)] \<and>
   ruby_image\<lparr>Repository := ''ruby'', Info := Some \<lparr>Config = \<lparr>ExposedPorts = {''8080''}\<rparr>\<rparr>\<rparr> \<noteq>
     ruby_image\<lparr>Repository := ''ruby''\<rparr> \<and>
   FromGitURL (stub 0) (sourceURL builder_input) =
     Inr \<lparr>Name = ''hello'', Origin = ''https://example.com/hello.git'', Ref = ''master'',
          ContextDir = []\<rparr> \<and>
   map (\<lambda>(n, b, st, s). s)
       (pipeline_calls (fst (snd (generateApp (stub 0) builder_input full_chain [])))) =
     [\<lparr>Name = ''app'', Origin = ''https://example.com/hello.git'', Ref = ''stable'',
       ContextDir = []\<rparr>]"
  by (simp add: run_builder_input pipeline_calls_def)
    (simp add: stub_def builder_input_def ruby_image_def)

text \<open>
  Claim C7 as amended: the references change after they are produced only through the
  caller's overrides. Of the source reference the generator produced, \<^verbatim>\<open>generateSourceRef\<close>
  replaces \<^verbatim>\<open>Ref\<close> and \<^verbatim>\<open>Name\<close> by the caller's values where these are non-empty and
  nothing else; pipeline construction receives the source reference as
  \<^verbatim>\<open>generateSourceRef\<close> returned it. Of the strategy reference that strategy generation
  produced, pipeline construction receives every field as produced, but for the exposed
  ports of the base image, which are the caller's port alone when a port is given; with
  no port, it receives the strategy reference unchanged.
\<close>

theorem references_modified_by_overrides_only:
  assumes g0: "(if length (sourceURL input) > 0 then FromGitURL D (sourceURL input)
               else FromDirectory D (sourceDir input)) = Inr s0"
    and g1: "generateSourceRef D (sourceURL input) (sourceDir input) (sourceRef input)
               (name input) = (Inr s, t1)"
    and g2: "generateBuildStrategyRef D s (dockerContext input) (builderImage input) chain =
               (Inr st0, t2)"
  shows "Origin s = Origin s0 \<and> ContextDir s = ContextDir s0 \<and>
         Ref s = (if sourceRef input = [] then Ref s0 else sourceRef input) \<and>
         Name s = (if name input = [] then Name s0 else name input) \<and>
         list_all (\<lambda>(n, b, st, s').
             n = Name s \<and> s' = s \<and> b = Base st \<and>
             Kind st = Kind st0 \<and> DockerContext st = DockerContext st0 \<and>
             map_option Namespace b = map_option Namespace (Base st0) \<and>
             map_option Repository b = map_option Repository (Base st0) \<and>
             map_option Tag b = map_option Tag (Base st0) \<and>
             map_option Registry b = map_option Registry (Base st0) \<and>
             exposed b = (if port input = [] then exposed (Base st0) else Some {port input}) \<and>
             (if port input = [] then st = st0 else True))
           (pipeline_calls (fst (snd (generateApp D input chain out))))"
proof -
  have src: "Origin s = Origin s0 \<and> ContextDir s = ContextDir s0 \<and>
         Ref s = (if sourceRef input = [] then Ref s0 else sourceRef input) \<and>
         Name s = (if name input = [] then Name s0 else name input)"
    using g0 g1 by (auto simp: generateSourceRef_def Let_def split: if_splits)
  have q: "pipeline_calls (t1 @ t2) = []"
    using generateSourceRef_quiet [OF g1] generateBuildStrategyRef_quiet [OF g2]
    by (simp add: quiet_pipeline_calls pipeline_calls_append)
  show ?thesis
  proof (cases "applyPort (port input) st0")
    case None
    then show ?thesis
      using src q generateApp_trace_panic [OF g1 g2 None, of out] by simp
  next
    case (Some st)
    from generateApp_trace [OF g1 g2 Some, of out] obtain rest where
      t: "fst (snd (generateApp D input chain out)) =
            (t1 @ t2) @ CallNewBuildPipeline (Name s) (Base st) st s # rest"
      and rest: "pipeline_calls rest = []"
      by blast
    have pc: "pipeline_calls (fst (snd (generateApp D input chain out))) =
        [(Name s, Base st, st, s)]"
      unfolding t using q rest by (simp add: pipeline_calls_append pipeline_calls_Cons)
    show ?thesis
    proof (cases "port input = []")
      case True
      with Some have "st = st0" by (simp add: applyPort_def)
      with True pc src show ?thesis by simp
    next
      case False
      with Some have a: "assignExposedPorts st0 {port input} = Some st"
        by (simp add: applyPort_def)
      show ?thesis
        using pc src False assignExposedPorts_frame [OF a] assignExposedPorts_exposed [OF a]
        by simp
    qed
  qed
qed

lemma stages_builder_input:
  "generateSourceRef (stub 0) (sourceURL builder_input) (sourceDir builder_input)
       (sourceRef builder_input) (name builder_input) =
     (Inr \<lparr>Name = ''app'', Origin = ''https://example.com/hello.git'', Ref = ''stable'',
           ContextDir = []\<rparr>,
      [CallFromGitURL ''https://example.com/hello.git''])"
  "generateBuildStrategyRef (stub 0)
       \<lparr>Name = ''app'', Origin = ''https://example.com/hello.git'', Ref = ''stable'',
        ContextDir = []\<rparr>
       (dockerContext builder_input) (builderImage builder_input) full_chain =
     (Inr \<lparr>Kind = BuilderImage, Base = Some (ruby_image\<lparr>Repository := ''ruby''\<rparr>),
           DockerContext = []\<rparr>,
      [CallFromNameAndResolver ''ruby'' full_chain, ResolverInvoked ''ruby'',
       CallFromSTIBuilderImage (ruby_image\<lparr>Repository := ''ruby''\<rparr>)])"
  by (simp_all add: generateSourceRef_def generateBuildStrategyRef_def stub_def
      builder_input_def)

theorem references_modified_by_overrides_only_witness:
  "pipeline_calls (fst (snd (generateApp (stub 0) builder_input full_chain []))) =
     [(''app'',
       Some (ruby_image\<lparr>Repository := ''ruby'',
          Info := Some \<lparr>Config = \<lparr>ExposedPorts = {''8080''}\<rparr>\<rparr>\<rparr>),
       \<lparr>Kind = BuilderImage,
        Base = Some (ruby_image\<lparr>Repository := ''ruby'',
          Info := Some \<lparr>Config = \<lparr>ExposedPorts = {''8080''}\<rparr>\<rparr>\<rparr>),
        DockerContext = []\<rparr>,
       \<lparr>Name = ''app'', Origin = ''https://example.com/hello.git'', Ref = ''stable'',
        ContextDir = []\<rparr>)] \<and>
   Registry (ruby_image\<lparr>Repository := ''ruby'',
          Info := Some \<lparr>Config = \<lparr>ExposedPorts = {''8080''}\<rparr>\<rparr>\<rparr>) =
     Registry (ruby_image\<lparr>Repository := ''ruby''\<rparr>)"
proof -
  have g0: "(if length (sourceURL builder_input) > 0
             then FromGitURL (stub 0) (sourceURL builder_input)
             else FromDirectory (stub 0) (sourceDir builder_input)) =
      Inr \<lparr>Name = ''hello'', Origin = ''https://example.com/hello.git'', Ref = ''master'',
           ContextDir = []\<rparr>"
    by (simp add: stub_def builder_input_def)
  from references_modified_by_overrides_only
    [OF g0 stages_builder_input(1) stages_builder_input(2), of "[]"]
  show ?thesis
    by (simp add: run_builder_input pipeline_calls_def)
qed

section \<open>generateApp: errors and the nil dereference\<close>

text \<open>
  Claim C8: an error of a stage is the result of \<^verbatim>\<open>generateApp\<close>, verbatim; no later stage
  runs and the writer is left as it was. One conjunct for each stage that can fail before
  the write: source reference, strategy, pipeline construction, deployment, objects,
  encoding. In each, the stages before have succeeded and the stage fails with \<open>e\<close>; then
  \<^verbatim>\<open>generateApp\<close> returns \<open>e\<close>, its trace ends with the call of the failing stage, and the
  writer holds what it held before.
\<close>

theorem generateApp_returns_stage_error:
  "(generateSourceRef D (sourceURL input) (sourceDir input) (sourceRef input)
      (name input) = (Inl e, t1) \<longrightarrow>
      generateApp D input chain out = (Returned (Some e), t1, out)) \<and>
   (generateSourceRef D (sourceURL input) (sourceDir input) (sourceRef input)
      (name input) = (Inr s, t1) \<and>
    generateBuildStrategyRef D s (dockerContext input) (builderImage input) chain =
      (Inl e, t2) \<longrightarrow>
      generateApp D input chain out = (Returned (Some e), t1 @ t2, out)) \<and>
   (generateSourceRef D (sourceURL input) (sourceDir input) (sourceRef input)
      (name input) = (Inr s, t1) \<and>
    generateBuildStrategyRef D s (dockerContext input) (builderImage input) chain =
      (Inr st0, t2) \<and>
    applyPort (port input) st0 = Some st \<and>
    NewBuildPipeline D (Name s) (Base st) st s = Inl e \<longrightarrow>
      generateApp D input chain out =
        (Returned (Some e),
         t1 @ t2 @ [CallNewBuildPipeline (Name s) (Base st) st s], out)) \<and>
   (generateSourceRef D (sourceURL input) (sourceDir input) (sourceRef input)
      (name input) = (Inr s, t1) \<and>
    generateBuildStrategyRef D s (dockerContext input) (builderImage input) chain =
      (Inr st0, t2) \<and>
    applyPort (port input) st0 = Some st \<and>
    NewBuildPipeline D (Name s) (Base st) st s = Inr p0 \<and>
    NeedsDeployment D p0 (env input) = Inl e \<longrightarrow>
      generateApp D input chain out =
        (Returned (Some e),
         t1 @ t2 @ [CallNewBuildPipeline (Name s) (Base st) st s, CallNeedsDeployment],
         out)) \<and>
   (generateSourceRef D (sourceURL input) (sourceDir input) (sourceRef input)
      (name input) = (Inr s, t1) \<and>
    generateBuildStrategyRef D s (dockerContext input) (builderImage input) chain =
      (Inr st0, t2) \<and>
    applyPort (port input) st0 = Some st \<and>
    NewBuildPipeline D (Name s) (Base st) st s = Inr p0 \<and>
    NeedsDeployment D p0 (env input) = Inr p \<and>
    Objects D p (NewAcceptFirst D) = Inl e \<longrightarrow>
      generateApp D input chain out =
        (Returned (Some e),
         t1 @ t2 @ [CallNewBuildPipeline (Name s) (Base st) st s, CallNeedsDeployment,
                    CallObjects],
         out)) \<and>
   (generateSourceRef D (sourceURL input) (sourceDir input) (sourceRef input)
      (name input) = (Inr s, t1) \<and>
    generateBuildStrategyRef D s (dockerContext input) (builderImage input) chain =
      (Inr st0, t2) \<and>
    applyPort (port input) st0 = Some st \<and>
    NewBuildPipeline D (Name s) (Base st) st s = Inr p0 \<and>
    NeedsDeployment D p0 (env input) = Inr p \<and>
    Objects D p (NewAcceptFirst D) = Inr objs \<and>
    Encode D (AddServices D objs) = Inl e \<longrightarrow>
      generateApp D input chain out =
        (Returned (Some e),
         t1 @ t2 @ [CallNewBuildPipeline (Name s) (Base st) st s, CallNeedsDeployment,
                    CallObjects, CallAddServices, CallEncode],
         out))"
  by (simp add: generateApp_def)

theorem generateApp_returns_stage_error_witness:
  "generateApp (stub 1) builder_input full_chain ''previous '' =
     (Returned (Some (Err ''source'')),
      [CallFromGitURL ''https://example.com/hello.git''], ''previous '') \<and>
   generateApp (stub 2) builder_input full_chain ''previous '' =
     (Returned (Some (Err ''strategy'')),
      [CallFromGitURL ''https://example.com/hello.git''] @
      [CallFromNameAndResolver ''ruby'' full_chain, ResolverInvoked ''ruby''],
      ''previous '') \<and>
   generateApp (stub 3) builder_input full_chain ''previous '' =
     (Returned (Some (Err ''pipeline'')),
      [CallFromGitURL ''https://example.com/hello.git''] @ [CallFromNameAndResolver ''ruby'' full_chain, ResolverInvoked ''ruby'',
       CallFromSTIBuilderImage (ruby_image\<lparr>Repository := ''ruby''\<rparr>)] @
      [CallNewBuildPipeline ''app''
         (Some (ruby_image\<lparr>Repository := ''ruby'',
            Info := Some \<lparr>Config = \<lparr>ExposedPorts = {''8080''}\<rparr>\<rparr>\<rparr>))
         \<lparr>Kind = BuilderImage,
          Base = Some (ruby_image\<lparr>Repository := ''ruby'',
            Info := Some \<lparr>Config = \<lparr>ExposedPorts = {''8080''}\<rparr>\<rparr>\<rparr>),
          DockerContext = []\<rparr>
         \<lparr>Name = ''app'', Origin = ''https://example.com/hello.git'', Ref = ''stable'',
          ContextDir = []\<rparr>], ''previous '') \<and>
   generateApp (stub 4) builder_input full_chain ''previous '' =
     (Returned (Some (Err ''deployment'')),
      [CallFromGitURL ''https://example.com/hello.git''] @ [CallFromNameAndResolver ''ruby'' full_chain, ResolverInvoked ''ruby'',
       CallFromSTIBuilderImage (ruby_image\<lparr>Repository := ''ruby''\<rparr>)] @
      [CallNewBuildPipeline ''app''
         (Some (ruby_image\<lparr>Repository := ''ruby'',
            Info := Some \<lparr>Config = \<lparr>ExposedPorts = {''8080''}\<rparr>\<rparr>\<rparr>))
         \<lparr>Kind = BuilderImage,
          Base = Some (ruby_image\<lparr>Repository := ''ruby'',
            Info := Some \<lparr>Config = \<lparr>ExposedPorts = {''8080''}\<rparr>\<rparr>\<rparr>),
          DockerContext = []\<rparr>
         \<lparr>Name = ''app'', Origin = ''https://example.com/hello.git'', Ref = ''stable'',
          ContextDir = []\<rparr>, CallNeedsDeployment], ''previous '') \<and>
   generateApp (stub 5) builder_input full_chain ''previous '' =
     (Returned (Some (Err ''objects'')),
      [CallFromGitURL ''https://example.com/hello.git''] @ [CallFromNameAndResolver ''ruby'' full_chain, ResolverInvoked ''ruby'',
       CallFromSTIBuilderImage (ruby_image\<lparr>Repository := ''ruby''\<rparr>)] @
      [CallNewBuildPipeline ''app''
         (Some (ruby_image\<lparr>Repository := ''ruby'',
            Info := Some \<lparr>Config = \<lparr>ExposedPorts = {''8080''}\<rparr>\<rparr>\<rparr>))
         \<lparr>Kind = BuilderImage,
          Base = Some (ruby_image\<lparr>Repository := ''ruby'',
            Info := Some \<lparr>Config = \<lparr>ExposedPorts = {''8080''}\<rparr>\<rparr>\<rparr>),
          DockerContext = []\<rparr>
         \<lparr>Name = ''app'', Origin = ''https://example.com/hello.git'', Ref = ''stable'',
          ContextDir = []\<rparr>, CallNeedsDeployment, CallObjects], ''previous '') \<and>
   generateApp (stub 6) builder_input full_chain ''previous '' =
     (Returned (Some (Err ''encoding'')),
      [CallFromGitURL ''https://example.com/hello.git''] @ [CallFromNameAndResolver ''ruby'' full_chain, ResolverInvoked ''ruby'',
       CallFromSTIBuilderImage (ruby_image\<lparr>Repository := ''ruby''\<rparr>)] @
      [CallNewBuildPipeline ''app''
         (Some (ruby_image\<lparr>Repository := ''ruby'',
            Info := Some \<lparr>Config = \<lparr>ExposedPorts = {''8080''}\<rparr>\<rparr>\<rparr>))
         \<lparr>Kind = BuilderImage,
          Base = Some (ruby_image\<lparr>Repository := ''ruby'',
            Info := Some \<lparr>Config = \<lparr>ExposedPorts = {''8080''}\<rparr>\<rparr>\<rparr>),
          DockerContext = []\<rparr>
         \<lparr>Name = ''app'', Origin = ''https://example.com/hello.git'', Ref = ''stable'',
          ContextDir = []\<rparr>, CallNeedsDeployment, CallObjects, CallAddServices, CallEncode],
      ''previous '')"
proof -
  let ?src = "\<lparr>Name = ''app'', Origin = ''https://example.com/hello.git'', Ref = ''stable'',
             ContextDir = []\<rparr>"
  let ?srcT = "[CallFromGitURL ''https://example.com/hello.git'']"
  let ?strat = "\<lparr>Kind = BuilderImage, Base = Some (ruby_image\<lparr>Repository := ''ruby''\<rparr>),
               DockerContext = []\<rparr>"
  let ?stratT = "[CallFromNameAndResolver ''ruby'' full_chain, ResolverInvoked ''ruby'',
       CallFromSTIBuilderImage (ruby_image\<lparr>Repository := ''ruby''\<rparr>)]"
  let ?final = "\<lparr>Kind = BuilderImage,
          Base = Some (ruby_image\<lparr>Repository := ''ruby'',
            Info := Some \<lparr>Config = \<lparr>ExposedPorts = {''8080''}\<rparr>\<rparr>\<rparr>),
          DockerContext = []\<rparr>"
  note defs = generateSourceRef_def generateBuildStrategyRef_def applyPort_def
    assignExposedPorts_def stub_def builder_input_def ruby_image_def
  note inst = generateApp_returns_stage_error
    [where input = builder_input and chain = full_chain and out = "''previous ''"
       and s = ?src and ?t1.0 = ?srcT and ?st0.0 = ?strat and st = ?final
       and ?p0.0 = "''app''" and p = "''app''" and objs = "[''build '', ''deploy '']"]
  have 1: "generateApp (stub 1) builder_input full_chain ''previous '' =
     (Returned (Some (Err ''source'')), ?srcT, ''previous '')"
    using inst [where D = "stub 1" and e = "Err ''source''" and ?t2.0 = "[]"]
    by (simp add: defs)
  have 2: "generateApp (stub 2) builder_input full_chain ''previous '' =
     (Returned (Some (Err ''strategy'')),
      ?srcT @ [CallFromNameAndResolver ''ruby'' full_chain, ResolverInvoked ''ruby''],
      ''previous '')"
    using inst [where D = "stub 2" and e = "Err ''strategy''"
        and ?t2.0 = "[CallFromNameAndResolver ''ruby'' full_chain, ResolverInvoked ''ruby'']"]
    by (simp add: defs)
  have 3: "generateApp (stub 3) builder_input full_chain ''previous '' =
     (Returned (Some (Err ''pipeline'')), ?srcT @ ?stratT @ [CallNewBuildPipeline ''app''
         (Some (ruby_image\<lparr>Repository := ''ruby'',
            Info := Some \<lparr>Config = \<lparr>ExposedPorts = {''8080''}\<rparr>\<rparr>\<rparr>))
         \<lparr>Kind = BuilderImage,
          Base = Some (ruby_image\<lparr>Repository := ''ruby'',
            Info := Some \<lparr>Config = \<lparr>ExposedPorts = {''8080''}\<rparr>\<rparr>\<rparr>),
          DockerContext = []\<rparr>
         \<lparr>Name = ''app'', Origin = ''https://example.com/hello.git'', Ref = ''stable'',
          ContextDir = []\<rparr>], ''previous '')"
    using inst [where D = "stub 3" and e = "Err ''pipeline''" and ?t2.0 = ?stratT]
    by (simp add: defs)
  have 4: "generateApp (stub 4) builder_input full_chain ''previous '' =
     (Returned (Some (Err ''deployment'')),
      ?srcT @ ?stratT @ [CallNewBuildPipeline ''app''
         (Some (ruby_image\<lparr>Repository := ''ruby'',
            Info := Some \<lparr>Config = \<lparr>ExposedPorts = {''8080''}\<rparr>\<rparr>\<rparr>))
         \<lparr>Kind = BuilderImage,
          Base = Some (ruby_image\<lparr>Repository := ''ruby'',
            Info := Some \<lparr>Config = \<lparr>ExposedPorts = {''8080''}\<rparr>\<rparr>\<rparr>),
          DockerContext = []\<rparr>
         \<lparr>Name = ''app'', Origin = ''https://example.com/hello.git'', Ref = ''stable'',
          ContextDir = []\<rparr>, CallNeedsDeployment], ''previous '')"
    using inst [where D = "stub 4" and e = "Err ''deployment''" and ?t2.0 = ?stratT]
    by (simp add: defs)
  have 5: "generateApp (stub 5) builder_input full_chain ''previous '' =
     (Returned (Some (Err ''objects'')),
      ?srcT @ ?stratT @ [CallNewBuildPipeline ''app''
         (Some (ruby_image\<lparr>Repository := ''ruby'',
            Info := Some \<lparr>Config = \<lparr>ExposedPorts = {''8080''}\<rparr>\<rparr>\<rparr>))
         \<lparr>Kind = BuilderImage,
          Base = Some (ruby_image\<lparr>Repository := ''ruby'',
            Info := Some \<lparr>Config = \<lparr>ExposedPorts = {''8080''}\<rparr>\<rparr>\<rparr>),
          DockerContext = []\<rparr>
         \<lparr>Name = ''app'', Origin = ''https://example.com/hello.git'', Ref = ''stable'',
          ContextDir = []\<rparr>, CallNeedsDeployment, CallObjects], ''previous '')"
    using inst [where D = "stub 5" and e = "Err ''objects''" and ?t2.0 = ?stratT]
    by (simp add: defs)
  have 6: "generateApp (stub 6) builder_input full_chain ''previous '' =
     (Returned (Some (Err ''encoding'')),
      ?srcT @ ?stratT @ [CallNewBuildPipeline ''app''
         (Some (ruby_image\<lparr>Repository := ''ruby'',
            Info := Some \<lparr>Config = \<lparr>ExposedPorts = {''8080''}\<rparr>\<rparr>\<rparr>))
         \<lparr>Kind = BuilderImage,
          Base = Some (ruby_image\<lparr>Repository := ''ruby'',
            Info := Some \<lparr>Config = \<lparr>ExposedPorts = {''8080''}\<rparr>\<rparr>\<rparr>),
          DockerContext = []\<rparr>
         \<lparr>Name = ''app'', Origin = ''https://example.com/hello.git'', Ref = ''stable'',
          ContextDir = []\<rparr>, CallNeedsDeployment, CallObjects, CallAddServices, CallEncode],
      ''previous '')"
    using inst [where D = "stub 6" and e = "Err ''encoding''" and ?t2.0 = ?stratT]
    by (simp add: defs)
  from 1 2 3 4 5 6 show ?thesis by simp
qed

text \<open>
  Claim C10: the assignment of the port goes through \<^verbatim>\<open>Base\<close> and \<^verbatim>\<open>Info\<close> unguarded.
  Once the source reference and the strategy reference have been generated without error,
  a non-empty port and a base image without metadata (or no base image) make
  \<^verbatim>\<open>generateApp\<close> panic on the nil pointer: no error is returned, nothing further is
  called, nothing is written. With an empty port, or with metadata on the base image,
  it does not panic.
\<close>

theorem port_override_nil_dereference:
  assumes "generateSourceRef D (sourceURL input) (sourceDir input) (sourceRef input)
             (name input) = (Inr s, t1)"
    and "generateBuildStrategyRef D s (dockerContext input) (builderImage input) chain =
           (Inr st, t2)"
  shows "(port input \<noteq> [] \<and> exposed (Base st) = None \<longrightarrow>
            generateApp D input chain out = (NilDereference, t1 @ t2, out)) \<and>
         (port input = [] \<or> exposed (Base st) \<noteq> None \<longrightarrow>
            fst (generateApp D input chain out) \<noteq> NilDereference)"
  using assms
  by (auto simp: generateApp_def applyPort_def assignExposedPorts_def exposed_def Let_def
      split: option.splits sum.splits prod.splits)

theorem port_override_nil_dereference_witness:
  "generateApp (stub 0) detect_input full_chain ''previous '' =
     (NilDereference,
      [CallFromDirectory ''hello''] @
      [CallFromSourceRef \<lparr>Name = ''hello'', Origin = ''hello'', Ref = [], ContextDir = []\<rparr>,
       ResolverInvoked ''ruby-20-centos''],
      ''previous '') \<and>
   port detect_input = ''8080'' \<and>
   exposed (Some (ruby_image\<lparr>Info := None\<rparr>)) = None \<and>
   fst (generateApp (stub 0) builder_input full_chain []) = Returned None"
proof -
  have g1: "generateSourceRef (stub 0) (sourceURL detect_input) (sourceDir detect_input)
      (sourceRef detect_input) (name detect_input) =
      (Inr \<lparr>Name = ''hello'', Origin = ''hello'', Ref = [], ContextDir = []\<rparr>,
       [CallFromDirectory ''hello''])"
    by (simp add: generateSourceRef_def stub_def detect_input_def)
  have g2: "generateBuildStrategyRef (stub 0)
      \<lparr>Name = ''hello'', Origin = ''hello'', Ref = [], ContextDir = []\<rparr>
      (dockerContext detect_input) (builderImage detect_input) full_chain =
      (Inr \<lparr>Kind = BuilderImage, Base = Some (ruby_image\<lparr>Info := None\<rparr>),
            DockerContext = []\<rparr>,
       [CallFromSourceRef \<lparr>Name = ''hello'', Origin = ''hello'', Ref = [], ContextDir = []\<rparr>,
        ResolverInvoked ''ruby-20-centos''])"
    by (simp add: generateBuildStrategyRef_def stub_def detect_input_def)
  have p: "port detect_input = ''8080''"
    by (simp add: detect_input_def)
  have e: "exposed (Some (ruby_image\<lparr>Info := None\<rparr>)) = None"
    by (simp add: exposed_def)
  from port_override_nil_dereference [OF g1 g2, of "''previous ''"] p e
  show ?thesis
    by (simp add: run_builder_input)
qed

end
